theory Spec2Isabelle
  imports Main "HOL-Library.Word" "HOL-Library.Signed_Division"
begin

section \<open>The Trakt device-authorisation library\<close>

text \<open>
  The package \<^verbatim>\<open>traktdeviceauth\<close> is present twice among the sources:
  \<^item> \<^verbatim>\<open>src/unnamed/part_001\<close>, with the three operations
    \<^verbatim>\<open>GenerateNewCodeContext\<close>, \<^verbatim>\<open>RequestTokenContext\<close>,
    \<^verbatim>\<open>RefreshAccessTokenContext\<close> and the poll loop
    \<^verbatim>\<open>PollForAuthTokenContext\<close>. Its functions keep their names here.
  \<^item> \<^verbatim>\<open>src/traktdeviceauth.go\<close>, with \<^verbatim>\<open>GenerateNewCodeContext\<close>
    (the same text but for the base URL, which is a literal there),
    \<^verbatim>\<open>RequestTokenContext\<close> and \<^verbatim>\<open>PollForAuthTokenContext\<close>. Where its
    text differs, its functions carry the suffix \<open>_tda\<close> here.

  Go's \<^verbatim>\<open>int\<close>, \<^verbatim>\<open>int64\<close> and \<^verbatim>\<open>time.Duration\<close> are 64-bit two's complement
  integers (a 64-bit platform): \<open>64 word\<close>, read with \<open>sint\<close>; \<open>*\<close> wraps around.
\<close>

subsection \<open>Errors\<close>

text \<open>
  The package's sentinel errors are constructors. \<open>ErrorsNew msg\<close> is
  \<^verbatim>\<open>errors.New(msg)\<close> called inside a function; \<open>Errorf p err\<close> is
  \<^verbatim>\<open>fmt.Errorf(p + ": %w", err)\<close>, which wraps \<^verbatim>\<open>err\<close> (possibly \<^verbatim>\<open>nil\<close>:
  \<open>None\<close>); \<open>ErrorfStatus p code\<close> is
  \<^verbatim>\<open>fmt.Errorf(p + ": unexpected status code '%v'", code)\<close>, which wraps nothing;
  \<open>External msg\<close> is an error made by \<^verbatim>\<open>net/http\<close>, \<^verbatim>\<open>io\<close> or
  \<^verbatim>\<open>encoding/json\<close>. A Go \<^verbatim>\<open>error\<close> value is an \<open>error option\<close>, \<open>None\<close>
  being \<^verbatim>\<open>nil\<close>.
\<close>

datatype error =
    ErrDeviceCodeUnclaimed
  | ErrInvalidGrant
  | ErrInvalidDeviceCode
  | ErrForbidden
  | ErrDeviceCodeAlreadyApproved
  | ErrDeviceCodeExpired
  | ErrDeviceCodeDenied
  | ErrPollRateTooFast
  | ErrServerError
  | ErrServiceOverloaded
  | ErrCloudflareError
  | ErrorsNew string
  | Errorf string "error option"
  | ErrorfStatus string int
  | External string

text \<open>\<^verbatim>\<open>errors.Is\<close> on a non-nil error: the error itself, then what it wraps.\<close>

fun unwraps_to :: "error \<Rightarrow> error \<Rightarrow> bool" where
  "unwraps_to (Errorf p (Some w)) target = (Errorf p (Some w) = target \<or> unwraps_to w target)"
| "unwraps_to e target = (e = target)"

definition errors_Is :: "error option \<Rightarrow> error \<Rightarrow> bool" where
  "errors_Is err target = (case err of None \<Rightarrow> False | Some e \<Rightarrow> unwraps_to e target)"

subsection \<open>Time\<close>

text \<open>
  Package \<^verbatim>\<open>time\<close> belongs to Go's standard library, not to the repository; what
  follows is its \<^verbatim>\<open>time.go\<close> as far as the library calls it. A \<^verbatim>\<open>time.Time\<close> is
  the struct \<^verbatim>\<open>{wall uint64; ext int64; loc *Location}\<close>. The word \<^verbatim>\<open>wall\<close> packs a
  flag (\<^verbatim>\<open>hasMonotonic\<close>, bit 63), 33 bits of seconds since 1885 and 30 bits of
  nanoseconds; the record holds these three as fields of their own. With the flag, \<open>ext\<close>
  is a monotonic clock reading in nanoseconds; without it, \<open>wall_sec\<close> is 0 and \<open>ext\<close>
  is the seconds since January 1 of year 1. A nil location is UTC, so the zero
  \<^verbatim>\<open>time.Time{}\<close> is \<open>Time0\<close>.
\<close>

datatype Location = UTC | Local

record Time =
  hasMonotonic :: bool
  wall_sec :: "64 word"
  wall_nsec :: "32 word"
  ext :: "64 word"
  loc :: Location

definition Time0 :: Time where
  "Time0 = \<lparr>hasMonotonic = False, wall_sec = 0, wall_nsec = 0, ext = 0, loc = UTC\<rparr>"

definition Second :: "64 word" where
  "Second = 1000000000"

definition wallToInternal :: "64 word" where
  "wallToInternal = 59453308800"

definition unixToInternal :: "64 word" where
  "unixToInternal = 62135596800"

text \<open>\<^verbatim>\<open>t.sec()\<close>, the seconds since January 1 of year 1, and \<^verbatim>\<open>t.stripMono()\<close>.\<close>

definition Time_sec :: "Time \<Rightarrow> 64 word" where
  "Time_sec t = (if hasMonotonic t then wallToInternal + wall_sec t else ext t)"

definition stripMono :: "Time \<Rightarrow> Time" where
  "stripMono t =
     (if hasMonotonic t then t\<lparr>ext := Time_sec t, hasMonotonic := False, wall_sec := 0\<rparr> else t)"

text \<open>
  \<^verbatim>\<open>t.addSec(d)\<close>: the packed seconds take the sum when it fits their 33 bits;
  otherwise the time loses its monotonic reading and \<open>ext\<close> takes the sum, which stops at
  the ends of the \<^verbatim>\<open>int64\<close> range instead of wrapping around.
\<close>

definition addSec :: "Time \<Rightarrow> 64 word \<Rightarrow> Time" where
  "addSec t d =
     (if hasMonotonic t \<and> 0 \<le> sint (wall_sec t + d) \<and> sint (wall_sec t + d) \<le> 8589934591
      then t\<lparr>wall_sec := wall_sec t + d\<rparr>
      else
        (let t = stripMono t; sum = ext t + d in
         if (sint (ext t) < sint sum) = (0 < sint d) then t\<lparr>ext := sum\<rparr>
         else if 0 < sint d then t\<lparr>ext := 9223372036854775807\<rparr>
         else t\<lparr>ext := - 9223372036854775807\<rparr>))"

text \<open>
  \<^verbatim>\<open>t.Add(d)\<close>. Go's \<^verbatim>\<open>/\<close> and \<^verbatim>\<open>%\<close> truncate towards zero (\<open>sdiv\<close>,
  \<open>smod\<close>); the nanoseconds are added as \<^verbatim>\<open>int32\<close>.
\<close>

definition time_Add :: "Time \<Rightarrow> 64 word \<Rightarrow> Time" where
  "time_Add t d =
     (let dsec = (word_of_int (sint d sdiv 1000000000) :: 64 word);
          nsec = wall_nsec t + (word_of_int (sint d smod 1000000000) :: 32 word);
          dsec' = (if 1000000000 \<le> sint nsec then dsec + 1
                   else if sint nsec < 0 then dsec - 1 else dsec);
          nsec' = (if 1000000000 \<le> sint nsec then nsec - 1000000000
                   else if sint nsec < 0 then nsec + 1000000000 else nsec);
          t = addSec (t\<lparr>wall_nsec := nsec'\<rparr>) dsec'
      in if hasMonotonic t then
           (let te = ext t + d in
            if (sint d < 0 \<and> sint (ext t) < sint te) \<or> (0 < sint d \<and> sint te < sint (ext t))
            then stripMono t
            else t\<lparr>ext := te\<rparr>)
         else t)"

text \<open>
  \<^verbatim>\<open>time.Unix(sec, nsec)\<close> with \<^verbatim>\<open>unixTime\<close>: the sum
  \<^verbatim>\<open>sec + unixToInternal\<close> is an \<^verbatim>\<open>int64\<close> sum and wraps around.
\<close>

definition unixTime :: "64 word \<Rightarrow> 32 word \<Rightarrow> Time" where
  "unixTime sec nsec =
     \<lparr>hasMonotonic = False, wall_sec = 0, wall_nsec = nsec, ext = sec + unixToInternal,
      loc = Local\<rparr>"

definition time_Unix :: "64 word \<Rightarrow> 64 word \<Rightarrow> Time" where
  "time_Unix sec nsec =
     (if sint nsec < 0 \<or> 1000000000 \<le> sint nsec then
        (let n = (word_of_int (sint nsec sdiv 1000000000) :: 64 word);
             sec = sec + n;
             nsec = nsec - n * 1000000000
         in if sint nsec < 0 then unixTime (sec - 1) (ucast (nsec + 1000000000))
            else unixTime sec (ucast nsec))
      else unixTime sec (ucast nsec))"

text \<open>
  \<^verbatim>\<open>time.Now()\<close> on a platform with a monotonic clock, from what
  \<^verbatim>\<open>runtimeNow\<close> reads: the Unix seconds and nanoseconds of the wall clock, and the
  nanoseconds of the monotonic clock since the process started.
\<close>

definition time_Now :: "64 word \<Rightarrow> 32 word \<Rightarrow> 64 word \<Rightarrow> Time" where
  "time_Now sec nsec mono_ns =
     (let sec = sec + (unixToInternal - wallToInternal) in
      if drop_bit 33 sec \<noteq> 0
      then \<lparr>hasMonotonic = False, wall_sec = 0, wall_nsec = nsec, ext = sec + wallToInternal,
            loc = Local\<rparr>
      else \<lparr>hasMonotonic = True, wall_sec = sec, wall_nsec = nsec, ext = mono_ns, loc = Local\<rparr>)"

text \<open>
  The instant a time stands for, in nanoseconds since the Unix epoch, as an integer without
  bounds: what the theorems compare. The logical clock of the poll loop below counts in it;
  wall clock and monotonic clock run alike there.
\<close>

definition Time_nanos :: "Time \<Rightarrow> int" where
  "Time_nanos t = (sint (Time_sec t) - 62135596800) * 1000000000 + sint (wall_nsec t)"

subsection \<open>The data model\<close>

record CodeResponse =
  DeviceCode :: string
  UserCode :: string
  VerificationURL :: string
  ExpiresIn :: "64 word"
  Interval :: "64 word"

record TokenResponse =
  AccessToken :: string
  TokenType :: string
  ExpiresAt :: Time
  RefreshToken :: string
  Scope :: string
  CreatedAt :: Time

text \<open>
  \<^verbatim>\<open>internalTokenResponse\<close>; its fields carry the prefix \<open>i\<close>, since the names are
  those of \<^verbatim>\<open>TokenResponse\<close>.
\<close>

record internalTokenResponse =
  iAccessToken :: string
  iTokenType :: string
  iExpiresIn :: "64 word"
  iRefreshToken :: string
  iScope :: string
  iCreatedAt :: "64 word"

text \<open>The zero values \<^verbatim>\<open>CodeResponse{}\<close> and \<^verbatim>\<open>TokenResponse{}\<close>.\<close>

definition CodeResponse0 :: CodeResponse where
  "CodeResponse0 =
     \<lparr>DeviceCode = [], UserCode = [], VerificationURL = [], ExpiresIn = 0, Interval = 0\<rparr>"

definition TokenResponse0 :: TokenResponse where
  "TokenResponse0 =
     \<lparr>AccessToken = [], TokenType = [], ExpiresAt = Time0, RefreshToken = [], Scope = [],
      CreatedAt = Time0\<rparr>"

subsection \<open>The response transformer\<close>

text \<open>
  \<^verbatim>\<open>transformInternalTokenResponse\<close>, the same in both files. The conversions
  \<^verbatim>\<open>int64(internal.CreatedAt)\<close> and \<^verbatim>\<open>time.Duration(internal.ExpiresIn)\<close> keep the
  64 bits; \<^verbatim>\<open>time.Second * time.Duration(...)\<close> is a product of two
  \<^verbatim>\<open>Duration\<close>s, hence modulo \<open>2 ^ 64\<close>.
\<close>

definition transformInternalTokenResponse :: "internalTokenResponse \<Rightarrow> TokenResponse" where
  "transformInternalTokenResponse internal =
     (let t = TokenResponse0;
          t = t\<lparr>AccessToken := iAccessToken internal\<rparr>;
          t = t\<lparr>TokenType := iTokenType internal\<rparr>;
          t = t\<lparr>RefreshToken := iRefreshToken internal\<rparr>;
          t = t\<lparr>Scope := iScope internal\<rparr>;
          t = t\<lparr>CreatedAt := time_Unix (iCreatedAt internal) 0\<rparr>;
          t = t\<lparr>ExpiresAt := time_Add (CreatedAt t) (Second * iExpiresIn internal)\<rparr>
      in t)"

subsection \<open>The network\<close>

text \<open>
  One call of \<^verbatim>\<open>http.NewRequestWithContext\<close> and \<^verbatim>\<open>http.DefaultClient.Do\<close> is an
  \<open>exchange\<close>, given by the environment: whether the request could be built, and either a
  transport error (also what a cancelled or expired context gives) or a response. A
  response has its status code and its body; the body is given by what reading and decoding it
  yield: \<open>ReadError\<close> when \<^verbatim>\<open>io.ReadAll\<close> fails, \<open>DecodeError\<close> when
  \<^verbatim>\<open>json.Unmarshal\<close> fails, \<open>Decoded v\<close> when the bytes decode to the struct \<open>v\<close>
  (the body \<^verbatim>\<open>{}\<close> decodes to the zero struct: \<^verbatim>\<open>json.Unmarshal\<close> leaves a field
  with no member as it was).
\<close>

datatype 'a body = ReadError string | DecodeError string | Decoded 'a

record 'a response =
  StatusCode :: int
  Body :: "'a body"

record 'a exchange =
  NewRequestErr :: "string option"
  DoResult :: "string + 'a response"

text \<open>
  What the operations do to the network is explicit state: the requests submitted so far
  (URL and body; the two headers are constants) and the number of response bodies that were
  obtained and not yet closed.
\<close>

record request =
  Url :: string
  Data :: string

record net =
  sent :: "request list"
  open_bodies :: nat

definition Do_request :: "string \<Rightarrow> string \<Rightarrow> net \<Rightarrow> net" where
  "Do_request u d s = s\<lparr>sent := sent s @ [\<lparr>Url = u, Data = d\<rparr>]\<rparr>"

definition Body_open :: "net \<Rightarrow> net" where
  "Body_open s = s\<lparr>open_bodies := open_bodies s + 1\<rparr>"

definition Body_Close :: "net \<Rightarrow> net" where
  "Body_Close s = s\<lparr>open_bodies := open_bodies s - 1\<rparr>"

text \<open>\<^verbatim>\<open>TraktAPIBaseUrl\<close>, a variable of part_001 with this initial value.\<close>

definition TraktAPIBaseUrl :: string where
  "TraktAPIBaseUrl = ''https://api.trakt.tv''"

subsection \<open>The request bodies\<close>

text \<open>The three \<^verbatim>\<open>fmt.Sprintf\<close> calls; \<^verbatim>\<open>%s\<close> inserts the string as it is.\<close>

definition GenerateNewCode_dataBuf :: "string \<Rightarrow> string" where
  \<open>GenerateNewCode_dataBuf clientID = ''{"client_id": "'' @ clientID @ ''"}''\<close>

definition RequestToken_dataBuf :: "CodeResponse \<Rightarrow> string \<Rightarrow> string \<Rightarrow> string" where
  \<open>RequestToken_dataBuf codeResp clientID clientSecret =
     ''{"code": "'' @ DeviceCode codeResp @ ''", "client_id": "'' @ clientID
       @ ''", "client_secret": "'' @ clientSecret @ ''"}''\<close>

definition RefreshAccessToken_dataBuf :: "string \<Rightarrow> string \<Rightarrow> string \<Rightarrow> string" where
  \<open>RefreshAccessToken_dataBuf refreshToken clientID clientSecret =
     ''{"refresh_token": "'' @ refreshToken @ ''", "client_id": "'' @ clientID
       @ ''", "client_secret": "'' @ clientSecret
       @ ''", "redirect_uri": "urn:ietf:wg:oauth:2.0:oob", "grant_type": "refresh_token"}''\<close>

subsection \<open>The status switches\<close>

text \<open>
  Each \<^verbatim>\<open>switch resp.StatusCode\<close>: \<open>None\<close> when control leaves the switch
  (case 200), the error returned otherwise.
\<close>

definition GenerateNewCode_switch :: "int \<Rightarrow> error option" where
  "GenerateNewCode_switch code =
     (if code = 200 then None
      else if code = 403 then Some ErrForbidden
      else if code = 500 then Some ErrServerError
      else if code = 503 \<or> code = 504 then Some ErrServiceOverloaded
      else if code = 520 \<or> code = 521 \<or> code = 522 then Some ErrCloudflareError
      else Some (ErrorfStatus ''RequestToken'' code))"

definition RequestToken_switch :: "int \<Rightarrow> error option" where
  "RequestToken_switch code =
     (if code = 200 then None
      else if code = 400 then Some ErrDeviceCodeUnclaimed
      else if code = 403 then Some ErrForbidden
      else if code = 404 then Some ErrInvalidDeviceCode
      else if code = 409 then Some ErrDeviceCodeAlreadyApproved
      else if code = 410 then Some ErrDeviceCodeExpired
      else if code = 418 then Some ErrDeviceCodeDenied
      else if code = 429 then Some ErrPollRateTooFast
      else if code = 500 then Some ErrServerError
      else if code = 503 \<or> code = 504 then Some ErrServiceOverloaded
      else if code = 520 \<or> code = 521 \<or> code = 522 then Some ErrCloudflareError
      else Some (ErrorfStatus ''RequestToken'' code))"

text \<open>The switch of \<^verbatim>\<open>src/traktdeviceauth.go\<close>: it has no case 403.\<close>

definition RequestToken_switch_tda :: "int \<Rightarrow> error option" where
  "RequestToken_switch_tda code =
     (if code = 200 then None
      else if code = 400 then Some ErrDeviceCodeUnclaimed
      else if code = 404 then Some ErrInvalidDeviceCode
      else if code = 409 then Some ErrDeviceCodeAlreadyApproved
      else if code = 410 then Some ErrDeviceCodeExpired
      else if code = 418 then Some ErrDeviceCodeDenied
      else if code = 429 then Some ErrPollRateTooFast
      else if code = 500 then Some ErrServerError
      else if code = 503 \<or> code = 504 then Some ErrServiceOverloaded
      else if code = 520 \<or> code = 521 \<or> code = 522 then Some ErrCloudflareError
      else Some (ErrorfStatus ''RequestToken'' code))"

definition RefreshAccessToken_switch :: "int \<Rightarrow> error option" where
  "RefreshAccessToken_switch code =
     (if code = 200 then None
      else if code = 401 then Some ErrInvalidGrant
      else if code = 403 then Some ErrForbidden
      else if code = 500 then Some ErrServerError
      else if code = 503 \<or> code = 504 then Some ErrServiceOverloaded
      else if code = 520 \<or> code = 521 \<or> code = 522 then Some ErrCloudflareError
      else Some (ErrorfStatus ''RefreshToken'' code))"

text \<open>The decode stage of the two token operations, after the switch.\<close>

definition decode_token :: "string \<Rightarrow> internalTokenResponse body \<Rightarrow> TokenResponse \<times> error option" where
  "decode_token p b =
     (case b of
        ReadError e \<Rightarrow> (TokenResponse0, Some (Errorf p (Some (External e))))
      | DecodeError e \<Rightarrow> (TokenResponse0, Some (Errorf p (Some (External e))))
      | Decoded respStruct \<Rightarrow> (transformInternalTokenResponse respStruct, None))"

subsection \<open>The transport operations\<close>

text \<open>
  Each operation takes its arguments, the exchange the environment answers with and the
  state of the network, and returns Go's pair of a value and an error, with the new state.
  The context argument acts through the exchange only. In part_001 every operation has
  \<^verbatim>\<open>defer resp.Body.Close()\<close> right after \<^verbatim>\<open>Do\<close> succeeded: the body is closed on
  the way out of each path that follows.
\<close>

definition GenerateNewCodeContext ::
  "string \<Rightarrow> CodeResponse exchange \<Rightarrow> net \<Rightarrow> (CodeResponse \<times> error option) \<times> net" where
  "GenerateNewCodeContext clientID x s =
     (let dataBuf = GenerateNewCode_dataBuf clientID in
      case NewRequestErr x of
        Some e \<Rightarrow> ((CodeResponse0, Some (Errorf ''GenerateNewCode'' (Some (External e)))), s)
      | None \<Rightarrow>
          (let s = Do_request (TraktAPIBaseUrl @ ''/oauth/device/code'') dataBuf s in
           case DoResult x of
             Inl e \<Rightarrow> ((CodeResponse0, Some (Errorf ''GenerateNewCode'' (Some (External e)))), s)
           | Inr resp \<Rightarrow>
               (let s = Body_open s;
                    r = (case GenerateNewCode_switch (StatusCode resp) of
                           Some err \<Rightarrow> (CodeResponse0, Some err)
                         | None \<Rightarrow>
                             (case Body resp of
                                ReadError e \<Rightarrow>
                                  (CodeResponse0, Some (Errorf ''GenerateNewCode'' (Some (External e))))
                              | DecodeError e \<Rightarrow>
                                  (CodeResponse0, Some (Errorf ''GenerateNewCode'' (Some (External e))))
                              | Decoded codeResp \<Rightarrow> (codeResp, None)))
                in (r, Body_Close s))))"

definition RequestTokenContext ::
  "CodeResponse \<Rightarrow> string \<Rightarrow> string \<Rightarrow> internalTokenResponse exchange \<Rightarrow> net
     \<Rightarrow> (TokenResponse \<times> error option) \<times> net" where
  "RequestTokenContext codeResp clientID clientSecret x s =
     (let dataBuf = RequestToken_dataBuf codeResp clientID clientSecret in
      case NewRequestErr x of
        Some e \<Rightarrow> ((TokenResponse0, Some (Errorf ''RequestToken'' (Some (External e)))), s)
      | None \<Rightarrow>
          (let s = Do_request (TraktAPIBaseUrl @ ''/oauth/device/token'') dataBuf s in
           case DoResult x of
             Inl e \<Rightarrow> ((TokenResponse0, Some (Errorf ''RequestToken'' (Some (External e)))), s)
           | Inr resp \<Rightarrow>
               (let s = Body_open s;
                    r = (case RequestToken_switch (StatusCode resp) of
                           Some err \<Rightarrow> (TokenResponse0, Some err)
                         | None \<Rightarrow> decode_token ''RequestToken'' (Body resp))
                in (r, Body_Close s))))"

text \<open>
  \<^verbatim>\<open>RequestTokenContext\<close> of \<^verbatim>\<open>src/traktdeviceauth.go\<close>: no \<^verbatim>\<open>defer\<close>; the
  one \<^verbatim>\<open>resp.Body.Close()\<close> stands after \<^verbatim>\<open>ioutil.ReadAll\<close>, behind the switch.
\<close>

definition RequestTokenContext_tda ::
  "CodeResponse \<Rightarrow> string \<Rightarrow> string \<Rightarrow> internalTokenResponse exchange \<Rightarrow> net
     \<Rightarrow> (TokenResponse \<times> error option) \<times> net" where
  "RequestTokenContext_tda codeResp clientID clientSecret x s =
     (let dataBuf = RequestToken_dataBuf codeResp clientID clientSecret in
      case NewRequestErr x of
        Some e \<Rightarrow> ((TokenResponse0, Some (Errorf ''RequestToken'' (Some (External e)))), s)
      | None \<Rightarrow>
          (let s = Do_request ''https://api.trakt.tv/oauth/device/token'' dataBuf s in
           case DoResult x of
             Inl e \<Rightarrow> ((TokenResponse0, Some (Errorf ''RequestToken'' (Some (External e)))), s)
           | Inr resp \<Rightarrow>
               (let s = Body_open s in
                case RequestToken_switch_tda (StatusCode resp) of
                  Some err \<Rightarrow> ((TokenResponse0, Some err), s)
                | None \<Rightarrow> (decode_token ''RequestToken'' (Body resp), Body_Close s))))"

definition RefreshAccessTokenContext ::
  "string \<Rightarrow> string \<Rightarrow> string \<Rightarrow> internalTokenResponse exchange \<Rightarrow> net
     \<Rightarrow> (TokenResponse \<times> error option) \<times> net" where
  "RefreshAccessTokenContext refreshToken clientID clientSecret x s =
     (let dataBuf = RefreshAccessToken_dataBuf refreshToken clientID clientSecret in
      case NewRequestErr x of
        Some e \<Rightarrow> ((TokenResponse0, Some (Errorf ''RefreshToken'' (Some (External e)))), s)
      | None \<Rightarrow>
          (let s = Do_request (TraktAPIBaseUrl @ ''/oauth/token'') dataBuf s in
           case DoResult x of
             Inl e \<Rightarrow> ((TokenResponse0, Some (Errorf ''RefreshToken'' (Some (External e)))), s)
           | Inr resp \<Rightarrow>
               (let s = Body_open s;
                    r = (case RefreshAccessToken_switch (StatusCode resp) of
                           Some err \<Rightarrow> (TokenResponse0, Some err)
                         | None \<Rightarrow> decode_token ''RefreshToken'' (Body resp))
                in (r, Body_Close s))))"

subsection \<open>Contexts and the clock\<close>

text \<open>
  A \<^verbatim>\<open>context.Context\<close> is given by the instants (nanoseconds since the epoch) at which
  it ends: its deadline, if it has one, and the instant at which the caller cancels it, if
  ever. \<^verbatim>\<open>context.WithDeadline(parent, d)\<close> keeps the parent's deadline when that one is
  earlier. The channel of \<^verbatim>\<open>ctx.Done()\<close> is closed from the earlier of the two instants on.
\<close>

record Context =
  Deadline :: "int option"
  CancelAt :: "int option"

definition Background :: Context where
  "Background = \<lparr>Deadline = None, CancelAt = None\<rparr>"

definition context_WithDeadline :: "Context \<Rightarrow> Time \<Rightarrow> Context" where
  "context_WithDeadline parent d =
     (case Deadline parent of
        None \<Rightarrow> parent\<lparr>Deadline := Some (Time_nanos d)\<rparr>
      | Some cur \<Rightarrow>
          if cur < Time_nanos d then parent else parent\<lparr>Deadline := Some (Time_nanos d)\<rparr>)"

definition Done_at :: "Context \<Rightarrow> int option" where
  "Done_at ctx =
     (case (Deadline ctx, CancelAt ctx) of
        (None, None) \<Rightarrow> None
      | (Some d, None) \<Rightarrow> Some d
      | (None, Some c) \<Rightarrow> Some c
      | (Some d, Some c) \<Rightarrow> Some (min d c))"

subsection \<open>The poll loop\<close>

text \<open>
  The loop of \<^verbatim>\<open>PollForAuthTokenContext\<close> runs against a script, one \<open>tick\<close> for each
  time the interval timer may fire: the exchange that answers the attempt made then, how
  long that attempt takes (nanoseconds), and which case \<^verbatim>\<open>select\<close> takes should the timer
  and \<^verbatim>\<open>ctx.Done()\<close> be ready at the same instant (Go chooses among ready cases at
  random). The script is the fuel: \<open>None\<close> says that the script ended before the loop
  did, in a wait that \<^verbatim>\<open>ctx.Done()\<close> does not end first.

  A wait that starts at instant \<open>t\<close> has its timer ready at \<open>timer_at codeResp t\<close>:
  \<^verbatim>\<open>time.After(d)\<close> fires after \<open>d\<close>, at once when \<open>d\<close> is not positive. The channel
  of \<^verbatim>\<open>ctx.Done()\<close> is ready from \<open>Done_at ctx\<close> on, hence in this wait from the later
  of that instant and \<open>t\<close>. \<^verbatim>\<open>select\<close> takes the case that is ready first; when both
  are ready at the same instant, which includes a context that is done already when a wait
  with no positive interval begins, the tick decides.
\<close>

record tick =
  PreferTimer :: bool
  Latency :: nat
  Reply :: "internalTokenResponse exchange"

definition timer_at :: "CodeResponse \<Rightarrow> int \<Rightarrow> int" where
  "timer_at codeResp t = t + max 0 (sint (Second * Interval codeResp))"

definition Done_first :: "Context \<Rightarrow> int \<Rightarrow> int \<Rightarrow> bool" where
  "Done_first ctx t fire = (case Done_at ctx of None \<Rightarrow> False | Some d \<Rightarrow> max t d < fire)"

definition Done_tie :: "Context \<Rightarrow> int \<Rightarrow> int \<Rightarrow> bool" where
  "Done_tie ctx t fire = (case Done_at ctx of None \<Rightarrow> False | Some d \<Rightarrow> max t d = fire)"

definition exceeded_context :: error where
  "exceeded_context =
     ErrorsNew ''PollForAuthToken: could not retrieve auth token, exceeded context''"

fun PollLoop ::
  "Context \<Rightarrow> CodeResponse \<Rightarrow> string \<Rightarrow> string \<Rightarrow> int \<Rightarrow> net \<Rightarrow> tick list
     \<Rightarrow> ((TokenResponse \<times> error option) \<times> net) option" where
  "PollLoop ctx codeResp clientID clientSecret t s [] =
     (if Done_first ctx t (timer_at codeResp t)
      then Some ((TokenResponse0, Some exceeded_context), s)
      else None)"
| "PollLoop ctx codeResp clientID clientSecret t s (k # ks) =
     (if Done_first ctx t (timer_at codeResp t)
         \<or> (Done_tie ctx t (timer_at codeResp t) \<and> \<not> PreferTimer k)
      then Some ((TokenResponse0, Some exceeded_context), s)
      else
        (case RequestTokenContext codeResp clientID clientSecret (Reply k) s of
           ((resp, err), s') \<Rightarrow>
             if err = None then Some ((resp, None), s')
             else if \<not> errors_Is err ErrDeviceCodeUnclaimed
             then Some ((TokenResponse0, Some (Errorf ''PollForAuthToken'' err)), s')
             else PollLoop ctx codeResp clientID clientSecret
                    (timer_at codeResp t + int (Latency k)) s' ks))"


text \<open>
  The loop of \<^verbatim>\<open>src/traktdeviceauth.go\<close>: its first test is \<^verbatim>\<open>err != nil\<close>, and
  that branch returns \<^verbatim>\<open>resp, nil\<close>.
\<close>

fun PollLoop_tda ::
  "Context \<Rightarrow> CodeResponse \<Rightarrow> string \<Rightarrow> string \<Rightarrow> int \<Rightarrow> net \<Rightarrow> tick list
     \<Rightarrow> ((TokenResponse \<times> error option) \<times> net) option" where
  "PollLoop_tda ctx codeResp clientID clientSecret t s [] =
     (if Done_first ctx t (timer_at codeResp t)
      then Some ((TokenResponse0, Some exceeded_context), s)
      else None)"
| "PollLoop_tda ctx codeResp clientID clientSecret t s (k # ks) =
     (if Done_first ctx t (timer_at codeResp t)
         \<or> (Done_tie ctx t (timer_at codeResp t) \<and> \<not> PreferTimer k)
      then Some ((TokenResponse0, Some exceeded_context), s)
      else
        (case RequestTokenContext_tda codeResp clientID clientSecret (Reply k) s of
           ((resp, err), s') \<Rightarrow>
             if err \<noteq> None then Some ((resp, None), s')
             else if \<not> errors_Is err ErrDeviceCodeUnclaimed
             then Some ((TokenResponse0, Some (Errorf ''PollForAuthToken'' err)), s')
             else PollLoop_tda ctx codeResp clientID clientSecret
                    (timer_at codeResp t + int (Latency k)) s' ks))"

definition PollForAuthTokenContext_tda ::
  "Time \<Rightarrow> Context \<Rightarrow> CodeResponse \<Rightarrow> string \<Rightarrow> string \<Rightarrow> net \<Rightarrow> tick list
     \<Rightarrow> ((TokenResponse \<times> error option) \<times> net) option" where
  "PollForAuthTokenContext_tda now ctx codeResp clientID clientSecret s ticks =
     (let ctx = context_WithDeadline ctx (time_Add now (Second * ExpiresIn codeResp))
      in PollLoop_tda ctx codeResp clientID clientSecret (Time_nanos now) s ticks)"

subsection \<open>JSON documents\<close>

text \<open>
  The grammar of RFC 8259, as a recogniser that returns the input left after what it read
  and the white space behind it. \<open>json_chars\<close> reads the characters of a string behind
  its opening quotation mark, up to and including the closing one; a quotation mark or a
  backslash stands inside a string only as part of an escape, a control character never.
  The first argument of \<open>json_value\<close>, \<open>json_members\<close> and \<open>json_elements\<close> bounds
  the number of nested calls.
\<close>

definition is_ws :: "char \<Rightarrow> bool" where
  "is_ws c = (c = CHR '' '' \<or> c = CHR 0x09 \<or> c = CHR 0x0A \<or> c = CHR 0x0D)"

definition skip_ws :: "string \<Rightarrow> string" where
  "skip_ws cs = dropWhile is_ws cs"

definition is_digit :: "char \<Rightarrow> bool" where
  "is_digit c = (c \<in> set ''0123456789'')"

definition is_hex :: "char \<Rightarrow> bool" where
  "is_hex c = (c \<in> set ''0123456789abcdefABCDEF'')"

definition is_escape :: "char \<Rightarrow> bool" where
  "is_escape c = (c = CHR 0x22 \<or> c = CHR 0x5C \<or> c \<in> set ''/bfnrt'')"

fun json_chars :: "string \<Rightarrow> string option" where
  "json_chars [] = None"
| "json_chars (c # cs) =
     (if c = CHR 0x22 then Some cs
      else if c = CHR 0x5C then
        (case cs of
           [] \<Rightarrow> None
         | e # es \<Rightarrow>
             if is_escape e then json_chars es
             else if e = CHR ''u'' \<and> 4 \<le> length es \<and> list_all is_hex (take 4 es)
             then json_chars (drop 4 es)
             else None)
      else if (of_char c :: nat) < 32 then None
      else json_chars cs)"

definition json_digits :: "string \<Rightarrow> string option" where
  "json_digits cs =
     (case cs of
        [] \<Rightarrow> None
      | d # ds \<Rightarrow> if is_digit d then Some (dropWhile is_digit ds) else None)"

definition json_int :: "string \<Rightarrow> string option" where
  "json_int cs =
     (case (case cs of [] \<Rightarrow> [] | c # r \<Rightarrow> if c = CHR ''-'' then r else cs) of
        [] \<Rightarrow> None
      | d # ds \<Rightarrow> if d = CHR ''0'' then Some ds else json_digits (d # ds))"

definition json_frac :: "string \<Rightarrow> string option" where
  "json_frac cs =
     (case cs of
        [] \<Rightarrow> Some cs
      | c # r \<Rightarrow> if c = CHR ''.'' then json_digits r else Some cs)"

definition json_exp :: "string \<Rightarrow> string option" where
  "json_exp cs =
     (case cs of
        [] \<Rightarrow> Some cs
      | c # r \<Rightarrow>
          if c = CHR ''e'' \<or> c = CHR ''E'' then
            (case r of
               [] \<Rightarrow> None
             | g # ds \<Rightarrow> if g = CHR ''+'' \<or> g = CHR ''-'' then json_digits ds else json_digits r)
          else Some cs)"

definition json_number :: "string \<Rightarrow> string option" where
  "json_number cs = Option.bind (Option.bind (json_int cs) json_frac) json_exp"

definition json_literal :: "string \<Rightarrow> string option" where
  "json_literal cs =
     (if take 4 cs = ''true'' then Some (drop 4 cs)
      else if take 5 cs = ''false'' then Some (drop 5 cs)
      else if take 4 cs = ''null'' then Some (drop 4 cs)
      else json_number cs)"

fun json_value :: "nat \<Rightarrow> string \<Rightarrow> string option"
  and json_members :: "nat \<Rightarrow> string \<Rightarrow> string option"
  and json_elements :: "nat \<Rightarrow> string \<Rightarrow> string option" where
  "json_value 0 cs = None"
| "json_value (Suc n) cs =
     (case skip_ws cs of
        [] \<Rightarrow> None
      | c # r \<Rightarrow>
          if c = CHR 0x7B then
            (case skip_ws r of
               [] \<Rightarrow> None
             | d # r' \<Rightarrow> if d = CHR 0x7D then Some (skip_ws r') else json_members n (d # r'))
          else if c = CHR 0x5B then
            (case skip_ws r of
               [] \<Rightarrow> None
             | d # r' \<Rightarrow> if d = CHR 0x5D then Some (skip_ws r') else json_elements n (d # r'))
          else if c = CHR 0x22 then map_option skip_ws (json_chars r)
          else map_option skip_ws (json_literal (c # r)))"
| "json_members 0 cs = None"
| "json_members (Suc n) cs =
     (case skip_ws cs of
        [] \<Rightarrow> None
      | q # r \<Rightarrow>
          if q = CHR 0x22 then
            (case map_option skip_ws (json_chars r) of
               None \<Rightarrow> None
             | Some [] \<Rightarrow> None
             | Some (c # r1) \<Rightarrow>
                 if c = CHR '':'' then
                   (case json_value n r1 of
                      None \<Rightarrow> None
                    | Some [] \<Rightarrow> None
                    | Some (d # r2) \<Rightarrow>
                        if d = CHR '','' then json_members n r2
                        else if d = CHR 0x7D then Some (skip_ws r2)
                        else None)
                 else None)
          else None)"
| "json_elements 0 cs = None"
| "json_elements (Suc n) cs =
     (case json_value n cs of
        None \<Rightarrow> None
      | Some [] \<Rightarrow> None
      | Some (d # r) \<Rightarrow>
          if d = CHR '','' then json_elements n r
          else if d = CHR 0x5D then Some (skip_ws r)
          else None)"

text \<open>A JSON document is one value with nothing behind it.\<close>

definition json_document :: "string \<Rightarrow> bool" where
  "json_document cs = (json_value (Suc (length cs)) cs = Some [])"

subsection \<open>Concrete inputs\<close>

text \<open>
  The inputs at which the theorems below are evaluated: the empty network; a response
  with a given status and an empty body (which does not decode); a response with status 200
  whose body decodes to a given payload; a tick whose attempt takes 200 ms; the grant and
  the payload of the scenario in section 8 of the specification; a payload and a grant
  whose lifetime in nanoseconds exceeds 64 bits; a grant that expires before its first
  tick and one that expires during its third wait; a payload created in the last second a
  \<^verbatim>\<open>time.Time\<close> can hold; an entry time, 1700000000 seconds after the epoch and five
  seconds after the process started; a context that the caller cancels one second after
  that.
\<close>

definition net0 :: net where
  "net0 = \<lparr>sent = [], open_bodies = 0\<rparr>"

definition status_reply :: "int \<Rightarrow> 'a exchange" where
  "status_reply code =
     \<lparr>NewRequestErr = None,
      DoResult = Inr \<lparr>StatusCode = code, Body = DecodeError ''unexpected end of JSON input''\<rparr>\<rparr>"

definition decoded_reply :: "'a \<Rightarrow> 'a exchange" where
  "decoded_reply v = \<lparr>NewRequestErr = None, DoResult = Inr \<lparr>StatusCode = 200, Body = Decoded v\<rparr>\<rparr>"

definition tick_of :: "internalTokenResponse exchange \<Rightarrow> tick" where
  "tick_of x = \<lparr>PreferTimer = True, Latency = 200000000, Reply = x\<rparr>"

definition grant_abc :: CodeResponse where
  "grant_abc =
     \<lparr>DeviceCode = ''abc'', UserCode = ''1234ABCD'',
      VerificationURL = ''https://trakt.tv/activate'', ExpiresIn = 600, Interval = 5\<rparr>"

definition grant_short :: CodeResponse where
  "grant_short = grant_abc\<lparr>ExpiresIn := 3\<rparr>"

definition grant_long :: CodeResponse where
  "grant_long = grant_abc\<lparr>ExpiresIn := 9223372037\<rparr>"

definition payload_AT :: internalTokenResponse where
  "payload_AT =
     \<lparr>iAccessToken = ''AT'', iTokenType = ''bearer'', iExpiresIn = 7776000,
      iRefreshToken = ''RT'', iScope = ''public'', iCreatedAt = 1700000000\<rparr>"

definition payload_long :: internalTokenResponse where
  "payload_long = payload_AT\<lparr>iExpiresIn := 9223372037\<rparr>"

definition grant_12s :: CodeResponse where
  "grant_12s = grant_abc\<lparr>ExpiresIn := 12\<rparr>"

definition payload_far :: internalTokenResponse where
  "payload_far = payload_AT\<lparr>iCreatedAt := 9223371974719179007\<rparr>"

definition now0 :: Time where
  "now0 = time_Now 1700000000 0 5000000000"

definition cancelled_after_1s :: Context where
  "cancelled_after_1s = \<lparr>Deadline = None, CancelAt = Some 1700000001000000000\<rparr>"


subsection \<open>Waits of a poll\<close>




section \<open>Theorems\<close>

subsection \<open>Arithmetic of times\<close>

text \<open>
  Sums that stay inside their width are the sums of the integers; a number of seconds
  between \<open>-9223372036\<close> and \<open>9223372036\<close> times \<^verbatim>\<open>time.Second\<close> is that number
  of nanoseconds.
\<close>

lemma sint_Second_mult:
  assumes "- 9223372036 \<le> sint x" and "sint x \<le> 9223372036"
  shows "sint (Second * (x :: 64 word)) = 1000000000 * sint x"
proof -
  have s: "sint Second = 1000000000"
    by (simp add: Second_def)
  have "sint (Second * x) = signed_take_bit 63 (sint Second * sint x)"
    by (simp add: sint_word_ariths)
  also have "\<dots> = sint Second * sint x"
    using assms by (simp add: s signed_take_bit_int_eq_self)
  finally show ?thesis
    by (simp add: s)
qed

lemma sint_add64:
  fixes a b :: "64 word"
  assumes "- 9223372036854775808 \<le> sint a + sint b" and "sint a + sint b \<le> 9223372036854775807"
  shows "sint (a + b) = sint a + sint b"
proof -
  have "sint (a + b) = signed_take_bit 63 (sint a + sint b)"
    by (simp add: sint_word_ariths)
  also have "\<dots> = sint a + sint b"
    using assms by (simp add: signed_take_bit_int_eq_self)
  finally show ?thesis .
qed




lemma sint64_range: "- 9223372036854775808 \<le> sint (w :: 64 word) \<and> sint w \<le> 9223372036854775807"
  using sint_ge [of w] sint_lt [of w] by simp

lemma sint_unixToInternal: "sint unixToInternal = 62135596800"
  by (simp add: unixToInternal_def)


lemma sdiv_billion: "(1000000000 * x) sdiv 1000000000 = (x :: int)"
  by (simp add: signed_divide_int_def abs_mult sgn_mult mult_sgn_abs)

lemma smod_billion: "(1000000000 * x) smod 1000000000 = (0 :: int)"
  by (simp add: signed_modulo_int_def abs_mult)







text \<open>
  On a time without monotonic reading and without nanoseconds, as \<^verbatim>\<open>time.Unix(sec, 0)\<close>
  makes it, \<^verbatim>\<open>Add\<close> of whole seconds adds to \<open>ext\<close>, as long as the sum stays an
  \<^verbatim>\<open>int64\<close>.
\<close>

lemma time_Add_no_mono:
  assumes "\<not> hasMonotonic t" and "wall_nsec t = 0"
    and "- 9223372036 \<le> sint x" and "sint x \<le> 9223372036"
    and "- 9223372036854775808 \<le> sint (ext t) + sint x"
    and "sint (ext t) + sint x \<le> 9223372036854775807"
  shows "time_Add t (Second * x) = t\<lparr>ext := ext t + x\<rparr>"
proof -
  have d: "sint (Second * x) = 1000000000 * sint x"
    using assms(3,4) by (rule sint_Second_mult)
  have s: "sint (ext t + x) = sint (ext t) + sint x"
    using assms(5,6) by (rule sint_add64)
  show ?thesis
    using assms(1,2)
    by (simp add: time_Add_def Let_def d sdiv_billion smod_billion addSec_def stripMono_def s)
qed

lemma Time_nanos_unixTime:
  assumes "sint sec \<le> 9223371974719179007"
  shows "Time_nanos (unixTime sec 0) = sint sec * 1000000000"
proof -
  have "sint (sec + unixToInternal) = sint sec + 62135596800"
    using assms sint64_range [of sec]
    by (subst sint_add64) (simp_all add: sint_unixToInternal)
  then show ?thesis
    by (simp add: Time_nanos_def unixTime_def Time_sec_def)
qed







lemmas time_eval =
  transformInternalTokenResponse_def TokenResponse0_def time_Unix_def unixTime_def
  time_Add_def addSec_def stripMono_def Time_sec_def Time_nanos_def Second_def
  unixToInternal_def wallToInternal_def signed_divide_int_def signed_modulo_int_def

subsection \<open>The response transformer\<close>

text \<open>
  C6, as amended. \<open>transformInternalTokenResponse\<close> is a function from payloads to
  token records with no error in its result type. For every payload whose \<open>ExpiresIn\<close>
  lies between \<open>-9223372036\<close> and \<open>9223372036\<close> (so that the lifetime in nanoseconds fits
  the 64 bits of a \<^verbatim>\<open>time.Duration\<close>) and whose \<open>CreatedAt\<close> and
  \<open>CreatedAt + ExpiresIn\<close> do not exceed \<open>9223371974719179007\<close> (the last second a
  \<^verbatim>\<open>time.Time\<close> holds, so that \<^verbatim>\<open>time.Unix\<close> does not wrap around and
  \<^verbatim>\<open>Add\<close> does not stop short), the record carries the four strings of the payload,
  \<open>CreatedAt\<close> is \<^verbatim>\<open>time.Unix(CreatedAt, 0)\<close>, the instant \<open>CreatedAt\<close> seconds
  after the epoch, and \<open>ExpiresAt\<close> is \<^verbatim>\<open>time.Unix(CreatedAt + ExpiresIn, 0)\<close>, the
  instant \<open>ExpiresIn\<close> seconds after \<open>CreatedAt\<close>. The instants do not depend on the
  time zone: the location of both times is \<open>Local\<close>, whatever zone that is, and plays no
  part in \<open>Time_nanos\<close>.
\<close>

theorem transform_exact:
  assumes "- 9223372036 \<le> sint (iExpiresIn p)" and "sint (iExpiresIn p) \<le> 9223372036"
    and "sint (iCreatedAt p) \<le> 9223371974719179007"
    and "sint (iCreatedAt p) + sint (iExpiresIn p) \<le> 9223371974719179007"
  shows "transformInternalTokenResponse p =
           \<lparr>AccessToken = iAccessToken p, TokenType = iTokenType p,
            ExpiresAt = unixTime (iCreatedAt p + iExpiresIn p) 0,
            RefreshToken = iRefreshToken p, Scope = iScope p,
            CreatedAt = unixTime (iCreatedAt p) 0\<rparr>
         \<and> Time_nanos (unixTime (iCreatedAt p) 0) = sint (iCreatedAt p) * 1000000000
         \<and> Time_nanos (unixTime (iCreatedAt p + iExpiresIn p) 0)
             = sint (iCreatedAt p) * 1000000000 + sint (iExpiresIn p) * 1000000000"
proof (intro conjI)
  let ?c = "unixTime (iCreatedAt p) 0"
  have c: "sint (ext ?c) = sint (iCreatedAt p) + 62135596800"
    using assms(3) sint64_range [of "iCreatedAt p"]
    by (simp add: unixTime_def) (subst sint_add64, simp_all add: sint_unixToInternal)
  have "time_Add ?c (Second * iExpiresIn p) = ?c\<lparr>ext := ext ?c + iExpiresIn p\<rparr>"
    using assms sint64_range [of "iCreatedAt p"]
    by (intro time_Add_no_mono) (simp_all add: c, simp_all add: unixTime_def)
  also have "\<dots> = unixTime (iCreatedAt p + iExpiresIn p) 0"
    by (simp add: unixTime_def algebra_simps)
  finally have e: "time_Add ?c (Second * iExpiresIn p) = unixTime (iCreatedAt p + iExpiresIn p) 0" .
  show "transformInternalTokenResponse p =
           \<lparr>AccessToken = iAccessToken p, TokenType = iTokenType p,
            ExpiresAt = unixTime (iCreatedAt p + iExpiresIn p) 0,
            RefreshToken = iRefreshToken p, Scope = iScope p,
            CreatedAt = unixTime (iCreatedAt p) 0\<rparr>"
    by (simp add: transformInternalTokenResponse_def TokenResponse0_def time_Unix_def e)
  show "Time_nanos (unixTime (iCreatedAt p) 0) = sint (iCreatedAt p) * 1000000000"
    using assms(3) by (rule Time_nanos_unixTime)
  have "iCreatedAt p + iExpiresIn p + unixToInternal = ext ?c + iExpiresIn p"
    by (simp add: unixTime_def)
  moreover have "sint (ext ?c + iExpiresIn p) = sint (ext ?c) + sint (iExpiresIn p)"
    using assms sint64_range [of "iCreatedAt p"] by (subst sint_add64) (simp_all add: c)
  ultimately have "sint (iCreatedAt p + iExpiresIn p + unixToInternal)
                     = sint (iCreatedAt p) + 62135596800 + sint (iExpiresIn p)"
    by (simp only: c)
  then show "Time_nanos (unixTime (iCreatedAt p + iExpiresIn p) 0)
          = sint (iCreatedAt p) * 1000000000 + sint (iExpiresIn p) * 1000000000"
    by (simp add: Time_nanos_def unixTime_def Time_sec_def)
qed

text \<open>
  The payload of the specification, \<open>createdAt = 1700000000\<close> and
  \<open>expiresIn = 7776000\<close>: \<open>ExpiresAt\<close> is exactly 7776000 seconds after \<open>CreatedAt\<close>.
\<close>

theorem transform_exact_witness:
  "Time_nanos (ExpiresAt (transformInternalTokenResponse payload_AT))
     - Time_nanos (CreatedAt (transformInternalTokenResponse payload_AT))
     = 7776000 * 1000000000
   \<and> Time_nanos (CreatedAt (transformInternalTokenResponse payload_AT))
     = 1700000000 * 1000000000
   \<and> AccessToken (transformInternalTokenResponse payload_AT) = ''AT''"
  using transform_exact [of payload_AT]
  by (simp add: payload_AT_def)

text \<open>
  C6 as stated fails twice. For a payload with \<open>expires_in = 9223372037\<close> the product
  \<^verbatim>\<open>time.Second * time.Duration(9223372037)\<close> wraps around to a negative duration, and
  \<open>ExpiresAt\<close> lies some 292 years before \<open>CreatedAt\<close>. For a payload with
  \<open>created_at = 9223371974719179007\<close> and \<open>expires_in = 7776000\<close> the seconds of
  \<open>CreatedAt\<close> are the largest \<^verbatim>\<open>int64\<close>, \<^verbatim>\<open>Add\<close> stops there, and
  \<open>ExpiresAt\<close> is \<open>CreatedAt\<close>.
\<close>

theorem transform_overflow_counterexample:
  "Time_nanos (ExpiresAt (transformInternalTokenResponse payload_long))
     - Time_nanos (CreatedAt (transformInternalTokenResponse payload_long))
     = - 9223372036709551616
   \<and> Time_nanos (ExpiresAt (transformInternalTokenResponse payload_long))
     \<noteq> Time_nanos (CreatedAt (transformInternalTokenResponse payload_long))
         + sint (iExpiresIn payload_long) * 1000000000
   \<and> ExpiresAt (transformInternalTokenResponse payload_far)
     = CreatedAt (transformInternalTokenResponse payload_far)
   \<and> Time_nanos (ExpiresAt (transformInternalTokenResponse payload_far))
     \<noteq> Time_nanos (CreatedAt (transformInternalTokenResponse payload_far))
         + sint (iExpiresIn payload_far) * 1000000000"
  by (simp add: payload_long_def payload_far_def payload_AT_def time_eval Let_def)


subsection \<open>Status 403 on the exchange\<close>

text \<open>In part_001 a response with status 403 is classified as \<open>ErrForbidden\<close>.\<close>

lemma RequestTokenContext_403:
  assumes "NewRequestErr x = None" and "DoResult x = Inr resp" and "StatusCode resp = 403"
  shows "fst (RequestTokenContext codeResp clientID clientSecret x s)
           = (TokenResponse0, Some ErrForbidden)"
  using assms by (simp add: RequestTokenContext_def RequestToken_switch_def)

text \<open>
  C5 fails on \<^verbatim>\<open>src/traktdeviceauth.go\<close>: its switch has no case 403, so a response
  with status 403 falls to \<^verbatim>\<open>default\<close> and the operation returns the generic error
  \<^verbatim>\<open>RequestToken: unexpected status code '403'\<close>, not \<open>ErrForbidden\<close>.
\<close>

theorem RequestTokenContext_tda_403:
  "fst (RequestTokenContext_tda grant_abc ''id'' ''secret'' (status_reply 403) net0)
     = (TokenResponse0, Some (ErrorfStatus ''RequestToken'' 403))"
  by (simp add: RequestTokenContext_tda_def status_reply_def RequestToken_switch_tda_def)

subsection \<open>Closing the response body\<close>

lemma Body_Close_open: "open_bodies (Body_Close (Body_open s)) = open_bodies s"
  by (simp add: Body_Close_def Body_open_def)

lemma open_bodies_Do_request: "open_bodies (Do_request u d s) = open_bodies s"
  by (simp add: Do_request_def)

text \<open>
  In part_001 each of the three operations leaves as many bodies open as it found, on
  every path: the deferred \<^verbatim>\<open>Close\<close> runs wherever the function returns.
\<close>

lemma GenerateNewCodeContext_closes:
  "open_bodies (snd (GenerateNewCodeContext clientID x s)) = open_bodies s"
  by (simp add: GenerateNewCodeContext_def Let_def Body_Close_open open_bodies_Do_request
      split: option.split sum.split)

lemma RequestTokenContext_closes:
  "open_bodies (snd (RequestTokenContext codeResp clientID clientSecret x s)) = open_bodies s"
  by (simp add: RequestTokenContext_def Let_def Body_Close_open open_bodies_Do_request
      split: option.split sum.split)

lemma RefreshAccessTokenContext_closes:
  "open_bodies (snd (RefreshAccessTokenContext refreshToken clientID clientSecret x s))
     = open_bodies s"
  by (simp add: RefreshAccessTokenContext_def Let_def Body_Close_open open_bodies_Do_request
      split: option.split sum.split)

text \<open>
  C7 fails on \<^verbatim>\<open>src/traktdeviceauth.go\<close>: \<^verbatim>\<open>RequestTokenContext\<close> closes the body
  only behind the switch, so each return inside the switch leaves it open. A response with
  status 400, the answer to every attempt made before the user has entered the code, leaves
  one body open.
\<close>

theorem RequestTokenContext_tda_leaves_body_open:
  "open_bodies
     (snd (RequestTokenContext_tda grant_abc ''id'' ''secret'' (status_reply 400) net0)) = 1"
  by (simp add: RequestTokenContext_tda_def status_reply_def RequestToken_switch_tda_def
      net0_def Body_open_def Do_request_def)

subsection \<open>Statuses outside the tables\<close>

text \<open>
  C8. The tables are those of section 4.2 of the specification: for the device-code
  request 200, 403, 500, 503, 504, 520, 521, 522; for the exchange these and 400, 404, 409,
  410, 418, 429; for the refresh the first eight and 401. A response whose status is not in
  the table of the operation makes the operation return its zero value and the generic error
  \<^verbatim>\<open>unexpected status code\<close> with that status, which is none of the named errors. This
  holds in both source files (the generic error of \<^verbatim>\<open>GenerateNewCodeContext\<close> starts
  with \<^verbatim>\<open>RequestToken:\<close> in both).
\<close>

theorem unexpected_status:
  assumes "NewRequestErr x = None" and "DoResult x = Inr resp"
    and "NewRequestErr y = None" and "DoResult y = Inr resq"
  shows "(StatusCode resp \<notin> {200, 403, 500, 503, 504, 520, 521, 522} \<longrightarrow>
            fst (GenerateNewCodeContext clientID x s)
              = (CodeResponse0, Some (ErrorfStatus ''RequestToken'' (StatusCode resp))))
         \<and> (StatusCode resq \<notin> {200, 400, 403, 404, 409, 410, 418, 429, 500, 503, 504,
                                  520, 521, 522} \<longrightarrow>
            fst (RequestTokenContext codeResp clientID clientSecret y s)
              = (TokenResponse0, Some (ErrorfStatus ''RequestToken'' (StatusCode resq)))
            \<and> fst (RequestTokenContext_tda codeResp clientID clientSecret y s)
              = (TokenResponse0, Some (ErrorfStatus ''RequestToken'' (StatusCode resq))))
         \<and> (StatusCode resq \<notin> {200, 401, 403, 500, 503, 504, 520, 521, 522} \<longrightarrow>
            fst (RefreshAccessTokenContext refreshToken clientID clientSecret y s)
              = (TokenResponse0, Some (ErrorfStatus ''RefreshToken'' (StatusCode resq))))"
  using assms
  by (simp add: GenerateNewCodeContext_def RequestTokenContext_def RequestTokenContext_tda_def
      RefreshAccessTokenContext_def Let_def GenerateNewCode_switch_def RequestToken_switch_def
      RequestToken_switch_tda_def RefreshAccessToken_switch_def)

text \<open>Status 302 at each of the operations.\<close>

theorem unexpected_status_witness:
  "fst (GenerateNewCodeContext ''id'' (status_reply 302) net0)
     = (CodeResponse0, Some (ErrorfStatus ''RequestToken'' 302))
   \<and> fst (RequestTokenContext grant_abc ''id'' ''secret'' (status_reply 302) net0)
     = (TokenResponse0, Some (ErrorfStatus ''RequestToken'' 302))
   \<and> fst (RequestTokenContext_tda grant_abc ''id'' ''secret'' (status_reply 302) net0)
     = (TokenResponse0, Some (ErrorfStatus ''RequestToken'' 302))
   \<and> fst (RefreshAccessTokenContext ''RT'' ''id'' ''secret'' (status_reply 302) net0)
     = (TokenResponse0, Some (ErrorfStatus ''RefreshToken'' 302))"
  using unexpected_status
    [of "status_reply 302"
        "\<lparr>StatusCode = 302, Body = DecodeError ''unexpected end of JSON input''\<rparr>"
        "status_reply 302"
        "\<lparr>StatusCode = 302, Body = DecodeError ''unexpected end of JSON input''\<rparr>"
        "''id''" net0 grant_abc "''secret''" "''RT''"]
  by (simp add: status_reply_def)

subsection \<open>The grant that is returned\<close>

text \<open>
  C9, as amended. \<^verbatim>\<open>GenerateNewCodeContext\<close> checks nothing in the grant: it returns
  a grant with a nil error exactly when the request could be built and the response has
  status 200 and a body that decodes, and the grant is then the decoded struct as it is.
  Its \<open>ExpiresIn\<close> and \<open>Interval\<close> are those of the body.
\<close>

theorem GenerateNewCodeContext_returns_decoded:
  "fst (GenerateNewCodeContext clientID x s) = (codeResp, None)
     \<longleftrightarrow> NewRequestErr x = None
         \<and> (\<exists>resp. DoResult x = Inr resp \<and> StatusCode resp = 200
                    \<and> Body resp = Decoded codeResp)"
  by (auto simp: GenerateNewCodeContext_def Let_def GenerateNewCode_switch_def
      split: option.splits sum.splits body.splits if_splits)

text \<open>The grant of the specification's scenario, sent by the server, is returned.\<close>

theorem GenerateNewCodeContext_returns_decoded_witness:
  "fst (GenerateNewCodeContext ''id'' (decoded_reply grant_abc) net0) = (grant_abc, None)
   \<and> sint (ExpiresIn grant_abc) = 600 \<and> sint (Interval grant_abc) = 5"
  using GenerateNewCodeContext_returns_decoded [of "''id''" "decoded_reply grant_abc" net0 grant_abc]
  by (simp add: decoded_reply_def grant_abc_def)


text \<open>
  C9 as stated fails: a 200 response whose body decodes to the zero struct (the body
  \<^verbatim>\<open>{}\<close>, or one that gives \<^verbatim>\<open>expires_in\<close> and \<^verbatim>\<open>interval\<close> as 0) is returned
  with a nil error, with \<open>ExpiresIn = 0\<close> and \<open>Interval = 0\<close>.
\<close>

theorem GenerateNewCodeContext_zero_grant:
  "fst (GenerateNewCodeContext ''id'' (decoded_reply CodeResponse0) net0) = (CodeResponse0, None)
   \<and> sint (ExpiresIn CodeResponse0) = 0 \<and> sint (Interval CodeResponse0) = 0"
  by (simp add: GenerateNewCodeContext_def decoded_reply_def GenerateNewCode_switch_def
      CodeResponse0_def)

subsection \<open>The request bodies\<close>

lemmas json_eval =
  json_document_def skip_ws_def is_ws_def is_escape_def GenerateNewCode_dataBuf_def
  RequestToken_dataBuf_def RefreshAccessToken_dataBuf_def

text \<open>Each operation submits the body its \<^verbatim>\<open>Sprintf\<close> built, once \<^verbatim>\<open>Do\<close> is reached.\<close>

lemma GenerateNewCodeContext_sends:
  assumes "NewRequestErr x = None"
  shows "sent (snd (GenerateNewCodeContext clientID x s))
           = sent s @ [\<lparr>Url = ''https://api.trakt.tv/oauth/device/code'',
                        Data = GenerateNewCode_dataBuf clientID\<rparr>]"
  using assms
  by (simp add: GenerateNewCodeContext_def Let_def Do_request_def Body_open_def Body_Close_def
      TraktAPIBaseUrl_def split: sum.split)

lemma RequestTokenContext_sends:
  assumes "NewRequestErr x = None"
  shows "sent (snd (RequestTokenContext codeResp clientID clientSecret x s))
           = sent s @ [\<lparr>Url = ''https://api.trakt.tv/oauth/device/token'',
                        Data = RequestToken_dataBuf codeResp clientID clientSecret\<rparr>]"
    and "sent (snd (RequestTokenContext_tda codeResp clientID clientSecret x s))
           = sent s @ [\<lparr>Url = ''https://api.trakt.tv/oauth/device/token'',
                        Data = RequestToken_dataBuf codeResp clientID clientSecret\<rparr>]"
  using assms
  by (simp_all add: RequestTokenContext_def RequestTokenContext_tda_def Let_def Do_request_def
      Body_open_def Body_Close_def TraktAPIBaseUrl_def split: sum.split option.split)

lemma RefreshAccessTokenContext_sends:
  assumes "NewRequestErr x = None"
  shows "sent (snd (RefreshAccessTokenContext refreshToken clientID clientSecret x s))
           = sent s @ [\<lparr>Url = ''https://api.trakt.tv/oauth/token'',
                        Data = RefreshAccessToken_dataBuf refreshToken clientID clientSecret\<rparr>]"
  using assms
  by (simp add: RefreshAccessTokenContext_def Let_def Do_request_def Body_open_def
      Body_Close_def TraktAPIBaseUrl_def split: sum.split)

text \<open>
  Bodies built from strings without quotation marks, backslashes or control characters are
  JSON documents; the body built from a client id that is one quotation mark is rejected
  whatever the bound on nesting.
\<close>

lemma plain_bodies_are_json:
  "json_document (GenerateNewCode_dataBuf ''id'')"
  "json_document (RequestToken_dataBuf grant_abc ''id'' ''secret'')"
  "json_document (RefreshAccessToken_dataBuf ''RT'' ''id'' ''secret'')"
  by (simp_all add: json_eval grant_abc_def)

lemma quote_body_rejected_at_any_depth:
  "json_value n (GenerateNewCode_dataBuf [CHR 0x22]) \<noteq> Some []"
proof (cases n)
  case 0
  then show ?thesis by simp
next
  case n: (Suc m)
  show ?thesis
  proof (cases m)
    case 0
    with n show ?thesis by (simp add: json_eval)
  next
    case m: (Suc k)
    show ?thesis
    proof (cases k)
      case 0
      with n m show ?thesis by (simp add: json_eval)
    next
      case (Suc j)
      with n m show ?thesis by (simp add: json_eval)
    qed
  qed
qed


subsection \<open>One attempt of the exchange\<close>

text \<open>
  What \<^verbatim>\<open>RequestTokenContext\<close> of part_001 can return: a transformed payload and no
  error; or the zero token and an error, which is \<open>ErrDeviceCodeUnclaimed\<close> exactly when
  the response has status 400, and otherwise an error that \<^verbatim>\<open>errors.Is\<close> does not
  take for it.
\<close>

lemma RequestToken_switch_cases:
  "RequestToken_switch code = None \<and> code = 200
   \<or> RequestToken_switch code = Some ErrDeviceCodeUnclaimed \<and> code = 400
   \<or> (\<exists>e. RequestToken_switch code = Some e \<and> \<not> unwraps_to e ErrDeviceCodeUnclaimed
          \<and> code \<noteq> 400 \<and> code \<noteq> 200)"
  by (simp add: RequestToken_switch_def)

lemma decode_token_shape:
  "decode_token p b = (tok, err) \<Longrightarrow>
     (err = None \<and> (\<exists>v. b = Decoded v \<and> tok = transformInternalTokenResponse v))
     \<or> (tok = TokenResponse0 \<and> (\<exists>m. err = Some (Errorf p (Some (External m)))))"
  by (auto simp: decode_token_def split: body.splits)

lemma RequestTokenContext_shape:
  assumes "RequestTokenContext codeResp clientID clientSecret x s = ((tok, err), s')"
  shows "(err = None \<and> (\<exists>v. tok = transformInternalTokenResponse v))
         \<or> (tok = TokenResponse0 \<and> err = Some ErrDeviceCodeUnclaimed)
         \<or> (tok = TokenResponse0 \<and> (\<exists>e. err = Some e \<and> \<not> unwraps_to e ErrDeviceCodeUnclaimed))"
proof (cases "NewRequestErr x")
  case (Some m)
  with assms show ?thesis
    by (auto simp: RequestTokenContext_def)
next
  case None
  show ?thesis
  proof (cases "DoResult x")
    case (Inl m)
    with None assms show ?thesis
      by (auto simp: RequestTokenContext_def Let_def)
  next
    case (Inr resp)
    show ?thesis
    proof (cases "RequestToken_switch (StatusCode resp)")
      case sw: None
      with None Inr assms
      have "decode_token ''RequestToken'' (Body resp) = (tok, err)"
        by (simp add: RequestTokenContext_def Let_def)
      from decode_token_shape [OF this] show ?thesis
        by auto
    next
      case sw: (Some e)
      with None Inr assms have r: "tok = TokenResponse0" "err = Some e"
        by (simp_all add: RequestTokenContext_def Let_def)
      from RequestToken_switch_cases [of "StatusCode resp"] sw r show ?thesis
        by auto
    qed
  qed
qed

lemma RequestTokenContext_unclaimed_iff:
  assumes "RequestTokenContext codeResp clientID clientSecret x s = ((tok, Some e), s')"
  shows "unwraps_to e ErrDeviceCodeUnclaimed
           \<longleftrightarrow> NewRequestErr x = None
               \<and> (\<exists>resp. DoResult x = Inr resp \<and> StatusCode resp = 400)"
proof (cases "NewRequestErr x")
  case (Some m)
  with assms show ?thesis
    by (auto simp: RequestTokenContext_def)
next
  case None
  show ?thesis
  proof (cases "DoResult x")
    case (Inl m)
    with None assms show ?thesis
      by (auto simp: RequestTokenContext_def Let_def)
  next
    case (Inr resp)
    show ?thesis
    proof (cases "RequestToken_switch (StatusCode resp)")
      case sw: None
      with None Inr assms
      have "decode_token ''RequestToken'' (Body resp) = (tok, Some e)"
        by (simp add: RequestTokenContext_def Let_def)
      from decode_token_shape [OF this] RequestToken_switch_cases [of "StatusCode resp"] sw
        None Inr
      show ?thesis
        by auto
    next
      case sw: (Some e')
      with None Inr assms have "e = e'"
        by (simp add: RequestTokenContext_def Let_def)
      with RequestToken_switch_cases [of "StatusCode resp"] sw None Inr show ?thesis
        by auto
    qed
  qed
qed

lemma transform_not_zero: "transformInternalTokenResponse v \<noteq> TokenResponse0"
  by (simp add: transformInternalTokenResponse_def TokenResponse0_def time_Unix_def unixTime_def
      Time0_def)

lemma errors_Is_Some: "errors_Is (Some e) target = unwraps_to e target"
  by (simp add: errors_Is_def)

subsection \<open>The poll loop of part_001\<close>



lemma PollLoop_success:
  assumes "\<not> Done_first ctx t (timer_at codeResp t)"
    and "Done_tie ctx t (timer_at codeResp t) \<Longrightarrow> PreferTimer k"
    and "RequestTokenContext codeResp clientID clientSecret (Reply k) s = ((tok, None), s')"
  shows "PollLoop ctx codeResp clientID clientSecret t s (k # ks) = Some ((tok, None), s')"
  using assms by auto

lemma PollLoop_fatal:
  assumes "\<not> Done_first ctx t (timer_at codeResp t)"
    and "Done_tie ctx t (timer_at codeResp t) \<Longrightarrow> PreferTimer k"
    and "RequestTokenContext codeResp clientID clientSecret (Reply k) s = ((tok, Some e), s')"
    and "\<not> unwraps_to e ErrDeviceCodeUnclaimed"
  shows "PollLoop ctx codeResp clientID clientSecret t s (k # ks)
           = Some ((TokenResponse0, Some (Errorf ''PollForAuthToken'' (Some e))), s')"
  using assms by (auto simp: errors_Is_Some)

lemma PollLoop_retry:
  assumes "\<not> Done_first ctx t (timer_at codeResp t)"
    and "Done_tie ctx t (timer_at codeResp t) \<Longrightarrow> PreferTimer k"
    and "RequestTokenContext codeResp clientID clientSecret (Reply k) s = ((tok, Some e), s')"
    and "unwraps_to e ErrDeviceCodeUnclaimed"
  shows "PollLoop ctx codeResp clientID clientSecret t s (k # ks)
           = PollLoop ctx codeResp clientID clientSecret (timer_at codeResp t + int (Latency k)) s' ks"
  using assms by (auto simp: errors_Is_Some)

text \<open>
  Whatever the script, the loop of part_001 returns a token that is not the zero token with
  no error, or the zero token with \<open>exceeded_context\<close>, or the zero token with the wrapped
  error of the attempt that ended it; never the zero token with no error.
\<close>

lemma PollLoop_shape:
  "PollLoop ctx codeResp clientID clientSecret t s ticks = Some ((tok, err), s') \<Longrightarrow>
     (err = None \<and> tok \<noteq> TokenResponse0 \<and> (\<exists>v. tok = transformInternalTokenResponse v))
     \<or> (tok = TokenResponse0 \<and> err = Some exceeded_context)
     \<or> (tok = TokenResponse0
          \<and> (\<exists>e. err = Some (Errorf ''PollForAuthToken'' (Some e))
                 \<and> \<not> unwraps_to e ErrDeviceCodeUnclaimed))"
proof (induction ticks arbitrary: t s)
  case Nil
  then show ?case
    by (simp split: if_splits)
next
  case (Cons k ks)
  show ?case
  proof (cases "Done_first ctx t (timer_at codeResp t)
                  \<or> (Done_tie ctx t (timer_at codeResp t) \<and> \<not> PreferTimer k)")
    case True
    with Cons.prems show ?thesis
      by auto
  next
    case False
    obtain tok1 err1 s1 where
      r: "RequestTokenContext codeResp clientID clientSecret (Reply k) s = ((tok1, err1), s1)"
      by (metis surj_pair)
    from RequestTokenContext_shape [OF r] consider
      (ok) v where "err1 = None" "tok1 = transformInternalTokenResponse v"
      | (unclaimed) "err1 = Some ErrDeviceCodeUnclaimed"
      | (other) e where "err1 = Some e" "\<not> unwraps_to e ErrDeviceCodeUnclaimed"
      by blast
    then show ?thesis
    proof cases
      case ok
      with False r Cons.prems show ?thesis
        by (auto simp: transform_not_zero)
    next
      case unclaimed
      with False r Cons.prems
      have "PollLoop ctx codeResp clientID clientSecret
              (timer_at codeResp t + int (Latency k)) s1 ks = Some ((tok, err), s')"
        by (auto simp: errors_Is_Some)
      from Cons.IH [OF this] show ?thesis .
    next
      case other
      with False r Cons.prems show ?thesis
        by (auto simp: errors_Is_Some)
    qed
  qed
qed


lemmas poll_eval =
  Background_def context_WithDeadline_def now0_def time_Now_def grant_abc_def grant_short_def
  grant_long_def grant_12s_def timer_at_def Done_first_def Done_tie_def Done_at_def tick_of_def
  status_reply_def decoded_reply_def net0_def cancelled_after_1s_def Let_def time_eval

subsection \<open>The poll loop of src/traktdeviceauth.go\<close>

text \<open>
  C1 fails on \<^verbatim>\<open>src/traktdeviceauth.go\<close>, whose loop tests \<^verbatim>\<open>err != nil\<close> where
  part_001 tests \<^verbatim>\<open>err == nil\<close>. When the first attempt is answered with status 400,
  the poll returns the zero token and a nil error, and the response of the second tick,
  which holds the token, is never asked for. When the first attempt is answered with the
  token, the poll returns the zero token and the error
  \<^verbatim>\<open>fmt.Errorf("PollForAuthToken: %w", nil)\<close>.
\<close>

theorem poll_tda_error_gives_zero_token_nil_error:
  "map_option fst
     (PollForAuthTokenContext_tda now0 Background grant_abc ''id'' ''secret'' net0
        [tick_of (status_reply 400), tick_of (decoded_reply payload_AT)])
     = Some (TokenResponse0, None)
   \<and> map_option fst
     (PollForAuthTokenContext_tda now0 Background grant_abc ''id'' ''secret'' net0
        [tick_of (decoded_reply payload_AT)])
     = Some (TokenResponse0, Some (Errorf ''PollForAuthToken'' None))"
  by (simp add: PollForAuthTokenContext_tda_def poll_eval RequestTokenContext_tda_def
      RequestToken_switch_tda_def decode_token_def errors_Is_def)

text \<open>
  C2 fails on \<^verbatim>\<open>src/traktdeviceauth.go\<close>, by the same test: when the first attempt is
  answered with status 418 (the user denied the code), the poll ends on that attempt but
  returns a nil error; \<open>ErrDeviceCodeDenied\<close> is lost.
\<close>

theorem poll_tda_denied_gives_nil_error:
  "map_option fst
     (PollForAuthTokenContext_tda now0 Background grant_abc ''id'' ''secret'' net0
        [tick_of (status_reply 418)])
     = Some (TokenResponse0, None)"
  by (simp add: PollForAuthTokenContext_tda_def poll_eval RequestTokenContext_tda_def
      RequestToken_switch_tda_def decode_token_def errors_Is_def)

subsection \<open>Cancellation\<close>







subsection \<open>The deadline\<close>















end
